theory Spec2Isabelle
  imports Main "HOL-Library.Multiset"
begin

section \<open>Expense tracker: the in-memory store and its REST handlers\<close>

text \<open>
  The development embeds \<^verbatim>\<open>server/storage.ts\<close> (class \<^verbatim>\<open>MemStorage\<close>),
  \<^verbatim>\<open>server/routes.ts\<close> (the four request handlers) and the validation schema of
  \<^verbatim>\<open>shared/schema.ts\<close>.

  Modelling conventions.
  \<^item> A JavaScript string is a \<open>string\<close>; its elements stand for the code units of the
    string, so \<open>length\<close> is the \<^verbatim>\<open>.length\<close> of the source.
  \<^item> Identifiers and timestamps (milliseconds of a \<^verbatim>\<open>Date\<close>) are integers. JavaScript
    numbers represent every integer of magnitude up to \<open>2^53\<close> exactly and \<^verbatim>\<open>++\<close> is exact
    there, so the model is that of the code while the counter stays below that bound.
  \<^item> A number that is printed (\<^verbatim>\<open>amount\<close>) is kept as the decimal digits \<open>s\<close> and the
    position \<open>n\<close> of the decimal point that \<^verbatim>\<open>Number::toString\<close> of ECMA-262 determines
    for it: the value is \<open>s * 10^(n - k)\<close> where \<open>k\<close> is the number of digits of \<open>s\<close>, and
    \<open>s\<close> is the shortest digit string that denotes the number.
  \<^item> \<^verbatim>\<open>new Date()\<close> reads the clock: the time is an argument of \<open>createExpense\<close>.
  \<^item> A \<^verbatim>\<open>Map\<close> iterates in insertion order: it is an association list in that order.
  \<^item> The id of a path is read by \<^verbatim>\<open>parseInt\<close>, which returns a Number: the parameter is
    the list of its code units, and the integer read is rounded as a Number is.
\<close>

subsection \<open>Numbers and \<^verbatim>\<open>Number.prototype.toString\<close>\<close>

datatype number =
    Finite bool nat int   \<comment> \<open>sign (\<open>True\<close> is negative), digits \<open>s\<close>, point position \<open>n\<close>; \<open>s = 0\<close> is zero\<close>
  | Infinity bool         \<comment> \<open>\<open>True\<close> is \<open>-Infinity\<close>\<close>
  | NaN

definition digit_char :: "nat \<Rightarrow> char" where
  "digit_char d = ''0123456789'' ! (d mod 10)"

fun dec_digits :: "nat \<Rightarrow> string" where
  "dec_digits m = (if m < 10 then [digit_char m] else dec_digits (m div 10) @ [digit_char m])"

declare dec_digits.simps [simp del]

text \<open>
  Steps 5 to 12 of \<^verbatim>\<open>Number::toString(x, 10)\<close> for a positive finite number with digits
  \<open>s\<close> and point position \<open>n\<close>.
\<close>

definition toString_digits :: "nat \<Rightarrow> int \<Rightarrow> string" where
  "toString_digits s n =
     (let ds = dec_digits s; k = int (length ds) in
      if k \<le> n \<and> n \<le> 21 then ds @ replicate (nat (n - k)) CHR ''0''
      else if 0 < n \<and> n \<le> 21 then take (nat n) ds @ ''.'' @ drop (nat n) ds
      else if - 6 < n \<and> n \<le> 0 then ''0.'' @ replicate (nat (- n)) CHR ''0'' @ ds
      else
        let e = n - 1;
            es = (if e < 0 then ''-'' else ''+'') @ dec_digits (nat \<bar>e\<bar>)
        in if k = 1 then ds @ ''e'' @ es
           else take 1 ds @ ''.'' @ drop 1 ds @ ''e'' @ es)"

fun toString :: "number \<Rightarrow> string" where
  "toString NaN = ''NaN''"
| "toString (Infinity neg) = (if neg then ''-Infinity'' else ''Infinity'')"
| "toString (Finite neg s n) =
     (if s = 0 then ''0''
      else (if neg then ''-'' else '''') @ toString_digits s n)"

text \<open>The comparison \<^verbatim>\<open>x <= 0\<close> of the source on a number.\<close>

fun le_zero :: "number \<Rightarrow> bool" where
  "le_zero NaN = False"
| "le_zero (Infinity neg) = neg"
| "le_zero (Finite neg s n) = (neg \<or> s = 0)"

subsection \<open>The data model of \<^verbatim>\<open>shared/schema.ts\<close>\<close>

text \<open>
  The three fields that a payload and a stored expense share; \<^verbatim>\<open>amount\<close> is a number
  in \<^verbatim>\<open>InsertExpense\<close> and a string in \<^verbatim>\<open>Expense\<close>.
\<close>

record 'a ExpenseFields =
  amount :: 'a
  description :: string
  category :: string

type_synonym InsertExpense = "number ExpenseFields"

record Expense = "string ExpenseFields" +
  id' :: int
  createdAt :: int

subsection \<open>\<^verbatim>\<open>Map\<close> and \<^verbatim>\<open>Array\<close> operations\<close>

text \<open>
  \<^verbatim>\<open>Map.prototype.set\<close> keeps the position of a key that is present and appends a new
  key; \<^verbatim>\<open>delete\<close> answers whether the key was present.
\<close>

fun Map_set :: "'k \<Rightarrow> 'v \<Rightarrow> ('k \<times> 'v) list \<Rightarrow> ('k \<times> 'v) list" where
  "Map_set k v [] = [(k, v)]"
| "Map_set k v ((k', v') # m) = (if k' = k then (k, v) # m else (k', v') # Map_set k v m)"

fun Map_get :: "'k \<Rightarrow> ('k \<times> 'v) list \<Rightarrow> 'v option" where
  "Map_get k [] = None"
| "Map_get k ((k', v') # m) = (if k' = k then Some v' else Map_get k m)"

fun Map_has :: "'k \<Rightarrow> ('k \<times> 'v) list \<Rightarrow> bool" where
  "Map_has k [] = False"
| "Map_has k ((k', v') # m) = (k' = k \<or> Map_has k m)"

fun Map_remove :: "'k \<Rightarrow> ('k \<times> 'v) list \<Rightarrow> ('k \<times> 'v) list" where
  "Map_remove k [] = []"
| "Map_remove k ((k', v') # m) = (if k' = k then Map_remove k m else (k', v') # Map_remove k m)"

definition Map_delete :: "'k \<Rightarrow> ('k \<times> 'v) list \<Rightarrow> bool \<times> ('k \<times> 'v) list" where
  "Map_delete k m = (Map_has k m, Map_remove k m)"

definition Map_values :: "('k \<times> 'v) list \<Rightarrow> 'v list" where
  "Map_values m = map snd m"

text \<open>
  \<^verbatim>\<open>Array.prototype.sort\<close> is stable; with a consistent comparator its result is the
  stable ordering, computed here by insertion.
\<close>

fun insert_sorted :: "('a \<Rightarrow> 'a \<Rightarrow> int) \<Rightarrow> 'a \<Rightarrow> 'a list \<Rightarrow> 'a list" where
  "insert_sorted cmp x [] = [x]"
| "insert_sorted cmp x (y # ys) =
     (if cmp x y \<le> 0 then x # y # ys else y # insert_sorted cmp x ys)"

fun Array_sort :: "('a \<Rightarrow> 'a \<Rightarrow> int) \<Rightarrow> 'a list \<Rightarrow> 'a list" where
  "Array_sort cmp [] = []"
| "Array_sort cmp (x # xs) = insert_sorted cmp x (Array_sort cmp xs)"

subsection \<open>\<^verbatim>\<open>MemStorage\<close>\<close>

record MemStorage =
  expenses :: "(int \<times> Expense) list"
  currentId :: int

definition MemStorage_new :: MemStorage where
  "MemStorage_new = \<lparr>expenses = [], currentId = 1\<rparr>"

text \<open>The comparator of both listings: \<^verbatim>\<open>b.createdAt.getTime() - a.createdAt.getTime()\<close>.\<close>

definition newest_first :: "Expense \<Rightarrow> Expense \<Rightarrow> int" where
  "newest_first a b = createdAt b - createdAt a"

definition getExpenses :: "MemStorage \<Rightarrow> Expense list" where
  "getExpenses st = Array_sort newest_first (Map_values (expenses st))"

definition getExpense :: "int \<Rightarrow> MemStorage \<Rightarrow> Expense option" where
  "getExpense i st = Map_get i (expenses st)"

definition createExpense :: "int \<Rightarrow> InsertExpense \<Rightarrow> MemStorage \<Rightarrow> Expense \<times> MemStorage" where
  "createExpense now insertExpense st =
     (let i = currentId st;
          expense = \<lparr>amount = toString (amount insertExpense),
                     description = description insertExpense,
                     category = category insertExpense,
                     id' = i,
                     createdAt = now\<rparr>
      in (expense, \<lparr>expenses = Map_set i expense (expenses st), currentId = i + 1\<rparr>))"

definition deleteExpense :: "int \<Rightarrow> MemStorage \<Rightarrow> bool \<times> MemStorage" where
  "deleteExpense i st =
     (let (deleted, m) = Map_delete i (expenses st)
      in (deleted, st\<lparr>expenses := m\<rparr>))"

definition getExpensesByCategory :: "string \<Rightarrow> MemStorage \<Rightarrow> Expense list" where
  "getExpensesByCategory c st =
     Array_sort newest_first (filter (\<lambda>expense. category expense = c) (Map_values (expenses st)))"

subsection \<open>Request bodies and the schema \<^verbatim>\<open>insertExpenseSchema\<close>\<close>

text \<open>A parsed JSON body; \<open>VUndefined\<close> is also what reading a missing property gives.\<close>

datatype js_value =
    VUndefined
  | VNull
  | VBoolean bool
  | VNumber number
  | VString string
  | VArray "js_value list"
  | VObject "(string \<times> js_value) list"

definition get_property :: "(string \<times> js_value) list \<Rightarrow> string \<Rightarrow> js_value" where
  "get_property props key = (case Map_get key props of None \<Rightarrow> VUndefined | Some v \<Rightarrow> v)"

datatype issue_code = invalid_type | too_small | too_big | invalid_enum_value

text \<open>
  An issue of a \<^verbatim>\<open>ZodError\<close>: its code, the path of the field, and the message when the
  schema supplies one (\<open>None\<close> stands for the library's default text).
\<close>

record ZodIssue =
  code :: issue_code
  path :: "string list"
  message :: "string option"

definition categories :: "string list" where
  "categories = [''food'', ''transport'', ''shopping'', ''entertainment'', ''utilities'',
                 ''healthcare'', ''education'', ''others'']"

text \<open>\<^verbatim>\<open>z.number().positive("Amount must be positive")\<close>\<close>

fun parse_amount :: "js_value \<Rightarrow> ZodIssue list + number" where
  "parse_amount (VNumber x) =
     (if x = NaN then Inl [\<lparr>code = invalid_type, path = [''amount''], message = None\<rparr>]
      else if le_zero x
        then Inl [\<lparr>code = too_small, path = [''amount''], message = Some ''Amount must be positive''\<rparr>]
      else Inr x)"
| "parse_amount v = Inl [\<lparr>code = invalid_type, path = [''amount''], message = None\<rparr>]"

text \<open>\<^verbatim>\<open>z.string().min(1, "Description is required").max(100, "Description too long")\<close>\<close>

fun parse_description :: "js_value \<Rightarrow> ZodIssue list + string" where
  "parse_description (VString d) =
     (let small = (if length d < 1
                   then [\<lparr>code = too_small, path = [''description''], message = Some ''Description is required''\<rparr>]
                   else []);
          big = (if length d > 100
                 then [\<lparr>code = too_big, path = [''description''], message = Some ''Description too long''\<rparr>]
                 else [])
      in if small @ big = [] then Inr d else Inl (small @ big))"
| "parse_description v = Inl [\<lparr>code = invalid_type, path = [''description''], message = None\<rparr>]"

text \<open>\<^verbatim>\<open>z.enum([...], { required_error: "Category is required" })\<close>\<close>

fun parse_category :: "js_value \<Rightarrow> ZodIssue list + string" where
  "parse_category (VString c) =
     (if c \<in> set categories then Inr c
      else Inl [\<lparr>code = invalid_enum_value, path = [''category''], message = None\<rparr>])"
| "parse_category VUndefined =
     Inl [\<lparr>code = invalid_type, path = [''category''], message = Some ''Category is required''\<rparr>]"
| "parse_category v = Inl [\<lparr>code = invalid_type, path = [''category''], message = None\<rparr>]"

fun issues_of :: "ZodIssue list + 'a \<Rightarrow> ZodIssue list" where
  "issues_of (Inl issues) = issues"
| "issues_of (Inr v) = []"

text \<open>
  \<^verbatim>\<open>insertExpenseSchema.parse\<close>: an object schema with the three keys, unknown keys
  stripped; every key is parsed and the issues of all of them are thrown together.
\<close>

fun insertExpenseSchema_parse :: "js_value \<Rightarrow> ZodIssue list + InsertExpense" where
  "insertExpenseSchema_parse (VObject props) =
     (let a = parse_amount (get_property props ''amount'');
          d = parse_description (get_property props ''description'');
          c = parse_category (get_property props ''category'')
      in case (a, d, c) of
           (Inr x, Inr y, Inr z) \<Rightarrow> Inr \<lparr>amount = x, description = y, category = z\<rparr>
         | _ \<Rightarrow> Inl (issues_of a @ issues_of d @ issues_of c))"
| "insertExpenseSchema_parse v = Inl [\<lparr>code = invalid_type, path = [], message = None\<rparr>]"

subsection \<open>\<^verbatim>\<open>parseInt\<close>\<close>

text \<open>
  A path parameter is the list of its UTF-16 code units, each a natural number below
  \<open>2^16\<close>; \<open>code_units\<close> gives those of a string of the Latin-1 range.
\<close>

definition code_units :: "string \<Rightarrow> nat list" where
  "code_units s = map of_char s"

text \<open>
  \<^verbatim>\<open>WhiteSpace\<close> and \<^verbatim>\<open>LineTerminator\<close> of ECMA-262: TAB, LF, VT, FF, CR, the space
  separators of Unicode, LS, PS and the byte order mark.
\<close>

definition is_WhiteSpace :: "nat \<Rightarrow> bool" where
  "is_WhiteSpace u =
     (u \<in> set [0x09, 0x0A, 0x0B, 0x0C, 0x0D, 0x20, 0xA0, 0x1680, 0x2028, 0x2029, 0x202F,
                0x205F, 0x3000, 0xFEFF]
      \<or> (0x2000 \<le> u \<and> u \<le> 0x200A))"

definition digit_value :: "nat \<Rightarrow> nat option" where
  "digit_value u =
     (if 48 \<le> u \<and> u \<le> 57 then Some (u - 48)
      else if 97 \<le> u \<and> u \<le> 122 then Some (u - 87)
      else if 65 \<le> u \<and> u \<le> 90 then Some (u - 55)
      else None)"

definition is_radix_digit :: "nat \<Rightarrow> nat \<Rightarrow> bool" where
  "is_radix_digit R u = (case digit_value u of Some d \<Rightarrow> d < R | None \<Rightarrow> False)"

definition radix_value :: "nat \<Rightarrow> nat list \<Rightarrow> nat" where
  "radix_value R Z = foldl (\<lambda>a u. a * R + (case digit_value u of Some d \<Rightarrow> d | None \<Rightarrow> 0)) 0 Z"

text \<open>
  The Number of a natural number: itself below \<open>2^53\<close>; above, the nearest number with a
  significand of 53 bits, a tie going to the even significand, and \<open>None\<close>
  (\<^verbatim>\<open>Infinity\<close>) from \<open>2^1024\<close> on.
\<close>

fun bit_length :: "nat \<Rightarrow> nat" where
  "bit_length m = (if m = 0 then 0 else Suc (bit_length (m div 2)))"

declare bit_length.simps [simp del]

definition to_Number :: "nat \<Rightarrow> nat option" where
  "to_Number m =
     (if m < 2 ^ 53 then Some m
      else
        let e = bit_length m - 53;
            q = m div 2 ^ e;
            r = m mod 2 ^ e;
            half = 2 ^ (e - 1);
            q' = (if half < r \<or> (r = half \<and> odd q) then q + 1 else q);
            v = q' * 2 ^ e
        in if v < 2 ^ 1024 then Some v else None)"

text \<open>What \<^verbatim>\<open>parseInt\<close> returns: \<^verbatim>\<open>NaN\<close>, an integer, or an infinity with its sign.\<close>

datatype parsed = ParsedNaN | ParsedInt int | ParsedInfinity bool

text \<open>
  \<^verbatim>\<open>parseInt(string)\<close> with no radix, after ECMA-262: leading white space is dropped,
  a sign is read, a prefix \<^verbatim>\<open>0x\<close> selects radix 16, and the longest prefix of digits is the
  number; what follows the digits is ignored. The integer of the digits is taken exactly
  (past 20 significant digits ECMA-262 lets an implementation approximate it) and then
  rounded to a Number.
\<close>

definition parseInt :: "nat list \<Rightarrow> parsed" where
  "parseInt string =
     (let S = dropWhile is_WhiteSpace string;
          negative = (case S of u # us \<Rightarrow> u = 45 | [] \<Rightarrow> False);
          S = (case S of u # us \<Rightarrow> if u = 43 \<or> u = 45 then us else S | [] \<Rightarrow> S);
          hex = (take 2 S = [48, 120] \<or> take 2 S = [48, 88]);
          R = (if hex then 16 else 10);
          S = (if hex then drop 2 S else S);
          Z = takeWhile (is_radix_digit R) S
      in if Z = [] then ParsedNaN
         else (case to_Number (radix_value R Z) of
                 None \<Rightarrow> ParsedInfinity negative
               | Some v \<Rightarrow> ParsedInt (if negative then - int v else int v)))"

subsection \<open>The request handlers of \<^verbatim>\<open>registerRoutes\<close>\<close>

text \<open>
  A handler takes the store and returns the response and the store. None of the store's
  operations raises, so the \<^verbatim>\<open>catch\<close> branches that answer 500 are never entered; the one
  exception of the source, the \<^verbatim>\<open>ZodError\<close> of \<^verbatim>\<open>parse\<close>, is the \<open>Inl\<close> of the schema.
\<close>

datatype response_body =
    ExpenseList "Expense list"
  | ExpenseJson Expense
  | Message string
  | ValidationError string "ZodIssue list"

record Response =
  status :: nat
  body :: response_body

text \<open>
  \<^verbatim>\<open>req.query.category\<close>: absent, a string, or an array or nested object of the query
  parser (truthy, and not of type string).
\<close>

datatype query_value = QAbsent | QString string | QOther

definition GET_expenses :: "query_value \<Rightarrow> MemStorage \<Rightarrow> Response \<times> MemStorage" where
  "GET_expenses category_param st =
     (let found =
            (case category_param of
               QString c \<Rightarrow> if c \<noteq> [] then getExpensesByCategory c st else getExpenses st
             | _ \<Rightarrow> getExpenses st)
      in (\<lparr>status = 200, body = ExpenseList found\<rparr>, st))"

definition POST_expenses :: "int \<Rightarrow> js_value \<Rightarrow> MemStorage \<Rightarrow> Response \<times> MemStorage" where
  "POST_expenses now req_body st =
     (case insertExpenseSchema_parse req_body of
        Inr validatedData \<Rightarrow>
          (let (expense, st') = createExpense now validatedData st
           in (\<lparr>status = 201, body = ExpenseJson expense\<rparr>, st'))
      | Inl errors \<Rightarrow>
          (\<lparr>status = 400, body = ValidationError ''Validation error'' errors\<rparr>, st))"

text \<open>
  The keys of the map are the integers that the counter gave: looking up an infinite id
  finds nothing and deleting it removes nothing.
\<close>

definition DELETE_expense :: "nat list \<Rightarrow> MemStorage \<Rightarrow> Response \<times> MemStorage" where
  "DELETE_expense id_param st =
     (case parseInt id_param of
        ParsedNaN \<Rightarrow> (\<lparr>status = 400, body = Message ''Invalid expense ID''\<rparr>, st)
      | ParsedInfinity neg \<Rightarrow> (\<lparr>status = 404, body = Message ''Expense not found''\<rparr>, st)
      | ParsedInt i \<Rightarrow>
          (let (deleted, st') = deleteExpense i st
           in if \<not> deleted then (\<lparr>status = 404, body = Message ''Expense not found''\<rparr>, st')
              else (\<lparr>status = 200, body = Message ''Expense deleted successfully''\<rparr>, st')))"

definition GET_expense :: "nat list \<Rightarrow> MemStorage \<Rightarrow> Response \<times> MemStorage" where
  "GET_expense id_param st =
     (case parseInt id_param of
        ParsedNaN \<Rightarrow> (\<lparr>status = 400, body = Message ''Invalid expense ID''\<rparr>, st)
      | ParsedInfinity neg \<Rightarrow> (\<lparr>status = 404, body = Message ''Expense not found''\<rparr>, st)
      | ParsedInt i \<Rightarrow>
          (case getExpense i st of
             None \<Rightarrow> (\<lparr>status = 404, body = Message ''Expense not found''\<rparr>, st)
           | Some expense \<Rightarrow> (\<lparr>status = 200, body = ExpenseJson expense\<rparr>, st)))"

subsection \<open>Sequences of calls, the invariant of the store, and the wording of the specification\<close>

text \<open>A client's calls that change the store, and the ids that the creations among them return.\<close>

datatype store_op = Create int InsertExpense | Delete int

fun is_Create :: "store_op \<Rightarrow> bool" where
  "is_Create (Create now ins) = True"
| "is_Create (Delete i) = False"

fun assigned_ids :: "store_op list \<Rightarrow> MemStorage \<Rightarrow> int list" where
  "assigned_ids [] st = []"
| "assigned_ids (Create now ins # ops) st =
     id' (fst (createExpense now ins st)) # assigned_ids ops (snd (createExpense now ins st))"
| "assigned_ids (Delete i # ops) st = assigned_ids ops (snd (deleteExpense i st))"

text \<open>
  The fields of \<^verbatim>\<open>MemStorage\<close> are private: a store is what the constructor and the
  methods make of it. Its keys are distinct (it is a \<^verbatim>\<open>Map\<close>) and below the counter.
\<close>

definition store_inv :: "MemStorage \<Rightarrow> bool" where
  "store_inv st =
     (distinct (map fst (expenses st)) \<and> list_all (\<lambda>k. k < currentId st) (map fst (expenses st)))"

definition is_decimal_digit :: "char \<Rightarrow> bool" where
  "is_decimal_digit c = (c \<in> set ''0123456789'')"

text \<open>
  The specification's ``string-encoded decimal with exactly 2 decimal places'': digits, a
  point, two digits.
\<close>

definition spec_two_decimals :: "string \<Rightarrow> bool" where
  "spec_two_decimals s =
     (let ip = takeWhile (\<lambda>c. c \<noteq> CHR ''.'') s;
          fp = drop (length ip) s
      in ip \<noteq> [] \<and> list_all is_decimal_digit ip
         \<and> length fp = 3 \<and> list_all is_decimal_digit (drop 1 fp))"

text \<open>
  The specification's ``valid integer'' for a path parameter: an optional sign and one or
  more decimal digits, and nothing else.
\<close>

definition spec_valid_integer :: "nat list \<Rightarrow> bool" where
  "spec_valid_integer p =
     (let ds = (case p of u # us \<Rightarrow> if u = 43 \<or> u = 45 then us else p | [] \<Rightarrow> p)
      in ds \<noteq> [] \<and> list_all (\<lambda>u. 48 \<le> u \<and> u \<le> 57) ds)"

subsection \<open>The scenario of the specification\<close>

text \<open>
  The payload \<^verbatim>\<open>{amount: 250.50, description: "Lunch", category: "food"}\<close>. The number
  literal \<^verbatim>\<open>250.50\<close> denotes \<open>250.5\<close>, whose shortest digits are \<open>2505\<close> with the point
  after the third.
\<close>

definition lunch :: InsertExpense where
  "lunch = \<lparr>amount = Finite False 2505 3, description = ''Lunch'', category = ''food''\<rparr>"

definition lunch_body :: js_value where
  "lunch_body = VObject [(''amount'', VNumber (Finite False 2505 3)),
                         (''description'', VString ''Lunch''),
                         (''category'', VString ''food'')]"

definition lunch_store :: MemStorage where
  "lunch_store = snd (createExpense 1000 lunch MemStorage_new)"

text \<open>
  The rejected payloads of the specification at once: amount \<open>0\<close>, an empty description
  and the category \<^verbatim>\<open>travel\<close>.
\<close>

definition invalid_props :: "(string \<times> js_value) list" where
  "invalid_props = [(''amount'', VNumber (Finite False 0 0)),
                    (''description'', VString []),
                    (''category'', VString ''travel'')]"

section \<open>Properties of the store\<close>

lemma Map_get_set_same: "Map_get k (Map_set k v m) = Some v"
  by (induction m) auto

text \<open>
  C1. For every input payload, \<open>createExpense\<close> followed by \<open>getExpense\<close> at the id of
  the returned record yields the returned record.
\<close>

theorem create_then_get:
  "getExpense (id' (fst (createExpense now ins st))) (snd (createExpense now ins st))
     = Some (fst (createExpense now ins st))"
  by (simp add: createExpense_def getExpense_def Let_def Map_get_set_same)

lemma lunch_store_eq:
  "lunch_store = \<lparr>expenses = [(1, \<lparr>amount = ''250.5'', description = ''Lunch'', category = ''food'',
                                     id' = 1, createdAt = 1000\<rparr>)],
                  currentId = 2\<rparr>"
  by (simp add: lunch_store_def lunch_def createExpense_def MemStorage_new_def Let_def
      toString_digits_def dec_digits.simps digit_char_def)

subsection \<open>Identifiers\<close>

lemma create_id: "id' (fst (createExpense now ins st)) = currentId st"
  by (simp add: createExpense_def Let_def)

lemma create_counter: "currentId (snd (createExpense now ins st)) = currentId st + 1"
  by (simp add: createExpense_def Let_def)

lemma delete_counter: "currentId (snd (deleteExpense i st)) = currentId st"
  by (simp add: deleteExpense_def Map_delete_def)

lemma assigned_ids_from:
  "assigned_ids ops st = [currentId st .. currentId st + int (length (filter is_Create ops)) - 1]"
proof (induction ops st rule: assigned_ids.induct)
  case (1 st)
  then show ?case by simp
next
  case (2 now ins ops st)
  then show ?case
    by (simp add: create_id create_counter upto_rec1 [of "currentId st"])
next
  case (3 i ops st)
  then show ?case by (simp add: delete_counter)
qed

text \<open>
  C2. From the initial store the ids that consecutive creations return are
  \<open>1, 2, 3, \<dots>\<close>: strictly increasing by 1 from 1 and never repeated, whatever
  deletions happen in between.
\<close>

theorem ids_sequential:
  "assigned_ids ops MemStorage_new = [1 .. int (length (filter is_Create ops))]
   \<and> distinct (assigned_ids ops MemStorage_new)
   \<and> sorted_wrt (<) (assigned_ids ops MemStorage_new)"
  by (simp add: assigned_ids_from MemStorage_new_def del: assigned_ids.simps)

subsection \<open>Listings\<close>

lemma insert_sorted_newest:
  "insert_sorted newest_first x xs = insort_key (\<lambda>e. - createdAt e) x xs"
  by (induction xs) (auto simp: newest_first_def)

lemma Array_sort_newest:
  "Array_sort newest_first xs = sort_key (\<lambda>e. - createdAt e) xs"
  by (induction xs) (simp_all add: insert_sorted_newest)

lemma Map_get_in_values: "Map_get k m = Some v \<Longrightarrow> v \<in> set (map snd m)"
  by (induction m) (auto split: if_splits)

text \<open>
  C4. \<open>getExpenses\<close> returns all stored expenses: the listing has exactly the expenses
  of the map's entries, each as often as it is stored, so every expense that \<open>getExpense\<close>
  finds is listed; and it is ordered by \<open>createdAt\<close> descending. It is a total function:
  no branch fails.
\<close>

theorem list_all_newest_first:
  "mset (getExpenses st) = mset (map snd (expenses st))
   \<and> sorted_wrt (\<lambda>a b. createdAt b \<le> createdAt a) (getExpenses st)
   \<and> (getExpense i st = Some e \<longrightarrow> e \<in> set (getExpenses st))"
proof -
  have all: "mset (getExpenses st) = mset (map snd (expenses st))"
    by (simp add: getExpenses_def Array_sort_newest Map_values_def)
  have "sorted (map (\<lambda>e. - createdAt e) (getExpenses st))"
    by (simp add: getExpenses_def Array_sort_newest)
  then have ordered: "sorted_wrt (\<lambda>a b. createdAt b \<le> createdAt a) (getExpenses st)"
    by (simp add: sorted_map)
  have "e \<in> set (getExpenses st)" if "getExpense i st = Some e"
  proof -
    from that have "Map_get i (expenses st) = Some e"
      by (simp add: getExpense_def)
    then have "e \<in> set (map snd (expenses st))"
      by (rule Map_get_in_values)
    then have "e \<in> set_mset (mset (getExpenses st))"
      by (simp only: all set_mset_mset)
    then show ?thesis by simp
  qed
  with all ordered show ?thesis by blast
qed

theorem list_all_newest_first_witness:
  "getExpense 1 lunch_store =
     Some \<lparr>amount = ''250.5'', description = ''Lunch'', category = ''food'', id' = 1, createdAt = 1000\<rparr>
   \<and> \<lparr>amount = ''250.5'', description = ''Lunch'', category = ''food'', id' = 1, createdAt = 1000\<rparr>
       \<in> set (getExpenses lunch_store)
   \<and> getExpenses (snd (createExpense 2000 lunch lunch_store)) =
       [\<lparr>amount = ''250.5'', description = ''Lunch'', category = ''food'', id' = 2, createdAt = 2000\<rparr>,
        \<lparr>amount = ''250.5'', description = ''Lunch'', category = ''food'', id' = 1, createdAt = 1000\<rparr>]"
proof -
  let ?e = "\<lparr>amount = ''250.5'', description = ''Lunch'', category = ''food'', id' = 1, createdAt = 1000\<rparr>"
  have found: "getExpense 1 lunch_store = Some ?e"
    by (simp add: lunch_store_eq getExpense_def)
  from list_all_newest_first [of lunch_store 1 ?e] found
  have listed: "?e \<in> set (getExpenses lunch_store)"
    by blast
  have str: "toString_digits 2505 3 = ''250.5''"
    by (simp add: toString_digits_def dec_digits.simps digit_char_def Let_def)
  have two: "getExpenses (snd (createExpense 2000 lunch lunch_store)) =
       [\<lparr>amount = ''250.5'', description = ''Lunch'', category = ''food'', id' = 2, createdAt = 2000\<rparr>,
        \<lparr>amount = ''250.5'', description = ''Lunch'', category = ''food'', id' = 1, createdAt = 1000\<rparr>]"
    by (simp add: lunch_store_eq createExpense_def lunch_def Let_def str getExpenses_def
        Map_values_def newest_first_def)
  from found listed two show ?thesis
    by blast
qed

text \<open>
  C5. \<open>getExpensesByCategory c\<close> is the subsequence of \<open>getExpenses\<close> of the expenses
  whose category is \<open>c\<close>, in the same order; when no stored expense has the category
  \<open>c\<close> (as for a value outside the enumeration in a store filled through the API) it
  is empty.
\<close>

theorem by_category_is_filtered_list:
  "getExpensesByCategory c st = filter (\<lambda>e. category e = c) (getExpenses st)
   \<and> ((\<forall>e \<in> set (Map_values (expenses st)). category e \<noteq> c)
        \<longrightarrow> getExpensesByCategory c st = [])"
proof -
  have "(\<forall>e \<in> set xs. category e \<noteq> c) \<longrightarrow> filter (\<lambda>e. category e = c) xs = []"
    for xs :: "Expense list"
    by (induction xs) auto
  then show ?thesis
    by (simp add: getExpensesByCategory_def getExpenses_def Array_sort_newest filter_sort)
qed

theorem by_category_is_filtered_list_witness:
  "list_all (\<lambda>e. category e \<noteq> ''travel'') (Map_values (expenses lunch_store))
   \<and> ''travel'' \<notin> set categories
   \<and> getExpensesByCategory ''travel'' lunch_store = []
   \<and> getExpensesByCategory ''food'' lunch_store = getExpenses lunch_store
   \<and> length (getExpenses lunch_store) = 1"
proof -
  have none: "\<forall>e \<in> set (Map_values (expenses lunch_store)). category e \<noteq> ''travel''"
    by (simp add: lunch_store_eq Map_values_def)
  have all: "filter (\<lambda>e. category e = ''food'') (getExpenses lunch_store) = getExpenses lunch_store"
    by (simp add: lunch_store_eq getExpenses_def Map_values_def)
  have len: "length (getExpenses lunch_store) = 1"
    by (simp add: lunch_store_eq getExpenses_def Map_values_def)
  have enum: "''travel'' \<notin> set categories"
    by (simp add: categories_def)
  from by_category_is_filtered_list [of "''travel''" lunch_store] none
  have empty: "getExpensesByCategory ''travel'' lunch_store = []"
    by blast
  from by_category_is_filtered_list [of "''food''" lunch_store] all
  have same: "getExpensesByCategory ''food'' lunch_store = getExpenses lunch_store"
    by simp
  from none have "list_all (\<lambda>e. category e \<noteq> ''travel'') (Map_values (expenses lunch_store))"
    by (simp add: list_all_iff)
  with enum empty same len show ?thesis
    by blast
qed

subsection \<open>Deletion and the length of the listing\<close>

lemma Map_has_get: "Map_has k m \<longleftrightarrow> Map_get k m \<noteq> None"
  by (induction m) auto

lemma Map_has_keys: "Map_has k m \<longleftrightarrow> k \<in> set (map fst m)"
  by (induction m) auto

lemma Map_remove_absent: "\<not> Map_has k m \<Longrightarrow> Map_remove k m = m"
  by (induction m) auto

lemma Map_set_fresh: "\<not> Map_has k m \<Longrightarrow> Map_set k v m = m @ [(k, v)]"
  by (induction m) auto

text \<open>
  C8. Deleting an id that is not in the store returns false and leaves the store, and
  with it the listing, as it was.
\<close>

theorem delete_absent:
  assumes "getExpense i st = None"
  shows "deleteExpense i st = (False, st)
         \<and> getExpenses (snd (deleteExpense i st)) = getExpenses st"
proof -
  from assms have absent: "\<not> Map_has i (expenses st)"
    by (simp add: getExpense_def Map_has_get)
  then have "deleteExpense i st = (False, st)"
    by (simp add: deleteExpense_def Map_delete_def Map_remove_absent)
  then show ?thesis by simp
qed

theorem delete_absent_witness:
  "getExpense 7 lunch_store = None
   \<and> deleteExpense 7 lunch_store = (False, lunch_store)
   \<and> getExpenses (snd (deleteExpense 7 lunch_store)) = getExpenses lunch_store
   \<and> length (getExpenses lunch_store) = 1"
proof -
  have absent: "getExpense 7 lunch_store = None"
    by (simp add: lunch_store_eq getExpense_def)
  have len: "length (getExpenses lunch_store) = 1"
    by (simp add: lunch_store_eq getExpenses_def Map_values_def)
  from delete_absent [OF absent] absent len show ?thesis
    by blast
qed

lemma length_Array_sort: "length (Array_sort cmp xs) = length xs"
proof (induction xs)
  case Nil
  then show ?case by simp
next
  case (Cons x xs)
  have "length (insert_sorted cmp x ys) = Suc (length ys)" for ys
    by (induction ys) simp_all
  with Cons show ?case by simp
qed

lemma length_Map_remove:
  "distinct (map fst m) \<Longrightarrow> Map_has k m \<Longrightarrow> Suc (length (Map_remove k m)) = length m"
proof (induction m)
  case Nil
  then show ?case by simp
next
  case (Cons p m)
  obtain k' v' where p: "p = (k', v')" by (cases p)
  show ?case
  proof (cases "k' = k")
    case True
    with Cons.prems p have "\<not> Map_has k m" by (simp add: Map_has_keys)
    with True p show ?thesis by (simp add: Map_remove_absent)
  next
    case False
    with Cons p show ?thesis by simp
  qed
qed

lemma keys_Map_set: "set (map fst (Map_set k v m)) = insert k (set (map fst m))"
proof (induction m)
  case Nil
  then show ?case by simp
next
  case (Cons p m)
  obtain k' v' where "p = (k', v')" by (cases p)
  with Cons show ?case by (simp add: insert_commute)
qed

lemma distinct_Map_set: "distinct (map fst m) \<Longrightarrow> distinct (map fst (Map_set k v m))"
proof (induction m)
  case Nil
  then show ?case by simp
next
  case (Cons p m)
  obtain k' v' where p: "p = (k', v')" by (cases p)
  from Cons.prems p have "k' \<notin> set (map fst m)" and "distinct (map fst m)"
    by simp_all
  with Cons.IH p show ?case
    by (auto simp add: keys_Map_set simp del: set_map)
qed

lemma keys_Map_remove: "map fst (Map_remove k m) = removeAll k (map fst m)"
  by (induction m) auto

text \<open>The invariant holds of the new store and every method keeps it.\<close>

lemma store_inv_new: "store_inv MemStorage_new"
  by (simp add: store_inv_def MemStorage_new_def)

lemma store_inv_create:
  assumes "store_inv st"
  shows "store_inv (snd (createExpense now ins st))"
proof -
  from assms have d: "distinct (map fst (expenses st))"
    and b: "\<forall>k \<in> set (map fst (expenses st)). k < currentId st"
    by (auto simp: store_inv_def list_all_iff)
  from b have "\<forall>k \<in> insert (currentId st) (set (map fst (expenses st))). k < currentId st + 1"
    by auto
  with d show ?thesis
    by (simp add: store_inv_def createExpense_def Let_def distinct_Map_set keys_Map_set
        list_all_iff del: ball_simps set_map set_removeAll)
qed

lemma store_inv_delete:
  assumes "store_inv st"
  shows "store_inv (snd (deleteExpense i st))"
proof -
  from assms have d: "distinct (map fst (expenses st))"
    and b: "\<forall>k \<in> set (map fst (expenses st)). k < currentId st"
    by (auto simp: store_inv_def list_all_iff)
  from b have "\<forall>k \<in> set (removeAll i (map fst (expenses st))). k < currentId st"
    by auto
  with d show ?thesis
    by (simp add: store_inv_def deleteExpense_def Map_delete_def distinct_removeAll
        keys_Map_remove list_all_iff del: ball_simps set_map set_removeAll)
qed

text \<open>
  C9. In a store of the class (one that satisfies its invariant) a creation makes the
  listing longer by exactly one, and the deletion of an id that is present returns true
  and makes it shorter by exactly one.
\<close>

theorem list_length_create_delete:
  assumes "store_inv st"
  shows "length (getExpenses (snd (createExpense now ins st))) = length (getExpenses st) + 1
         \<and> (getExpense i st \<noteq> None \<longrightarrow>
              fst (deleteExpense i st)
              \<and> length (getExpenses (snd (deleteExpense i st))) + 1 = length (getExpenses st))"
proof (intro conjI impI)
  from assms have "\<not> Map_has (currentId st) (expenses st)"
    by (auto simp: store_inv_def Map_has_keys list_all_iff)
  then show "length (getExpenses (snd (createExpense now ins st))) = length (getExpenses st) + 1"
    by (simp add: getExpenses_def createExpense_def Let_def Map_set_fresh length_Array_sort
        Map_values_def)
next
  assume "getExpense i st \<noteq> None"
  then have has: "Map_has i (expenses st)"
    by (simp add: getExpense_def Map_has_get)
  then show "fst (deleteExpense i st)"
    by (simp add: deleteExpense_def Map_delete_def)
  from assms have "distinct (map fst (expenses st))"
    by (simp add: store_inv_def)
  from length_Map_remove [OF this has]
  show "length (getExpenses (snd (deleteExpense i st))) + 1 = length (getExpenses st)"
    by (simp add: getExpenses_def deleteExpense_def Map_delete_def length_Array_sort Map_values_def)
qed

theorem list_length_create_delete_witness:
  "store_inv lunch_store
   \<and> getExpense 1 lunch_store \<noteq> None
   \<and> length (getExpenses lunch_store) = 1
   \<and> length (getExpenses (snd (createExpense 2000 lunch lunch_store))) = 2
   \<and> fst (deleteExpense 1 lunch_store)
   \<and> length (getExpenses (snd (deleteExpense 1 lunch_store))) = 0"
proof -
  have inv: "store_inv lunch_store"
    by (simp add: lunch_store_eq store_inv_def)
  have present: "getExpense 1 lunch_store \<noteq> None"
    by (simp add: lunch_store_eq getExpense_def)
  have len: "length (getExpenses lunch_store) = 1"
    by (simp add: lunch_store_eq getExpenses_def Map_values_def)
  from list_length_create_delete [OF inv, of 2000 lunch 1] inv present len show ?thesis
    by simp
qed

section \<open>Properties of the request handlers\<close>

subsection \<open>The stored amount\<close>

text \<open>
  C3. The scenario of the specification on the code: the payload with amount \<open>250.50\<close>
  is stored and returned with the amount \<open>250.5\<close>, which does not have two decimal
  places.
\<close>

theorem lunch_amount_stored:
  "amount (fst (createExpense now lunch MemStorage_new)) = ''250.5''
   \<and> \<not> spec_two_decimals (amount (fst (createExpense now lunch MemStorage_new)))
   \<and> spec_two_decimals ''250.50''
   \<and> fst (POST_expenses now lunch_body MemStorage_new) =
        \<lparr>status = 201,
         body = ExpenseJson \<lparr>amount = ''250.5'', description = ''Lunch'', category = ''food'',
                              id' = 1, createdAt = now\<rparr>\<rparr>"
proof -
  have str: "toString_digits 2505 3 = ''250.5''"
    by (simp add: toString_digits_def dec_digits.simps digit_char_def Let_def)
  have stored: "amount (fst (createExpense now lunch MemStorage_new)) = ''250.5''"
    by (simp add: createExpense_def lunch_def Let_def str)
  have shape: "\<not> spec_two_decimals ''250.5'' \<and> spec_two_decimals ''250.50''"
    by (simp add: spec_two_decimals_def is_decimal_digit_def)
  have parsed: "insertExpenseSchema_parse lunch_body = Inr lunch"
    by (simp add: lunch_body_def lunch_def get_property_def categories_def)
  have "fst (POST_expenses now lunch_body MemStorage_new) =
        \<lparr>status = 201,
         body = ExpenseJson \<lparr>amount = ''250.5'', description = ''Lunch'', category = ''food'',
                              id' = 1, createdAt = now\<rparr>\<rparr>"
    by (simp add: POST_expenses_def parsed createExpense_def lunch_def MemStorage_new_def Let_def str)
  with stored shape show ?thesis by simp
qed

subsection \<open>Validation\<close>

lemma amount_issues:
  "\<forall>i \<in> set (issues_of (parse_amount v)). path i = [''amount'']"
  by (cases v) auto

lemma description_issues:
  "\<forall>i \<in> set (issues_of (parse_description v)). path i = [''description'']"
  by (cases v) (auto simp: Let_def)

lemma category_issues:
  "\<forall>i \<in> set (issues_of (parse_category v)). path i = [''category'']"
  by (cases v) auto

lemma parse_amount_nonempty: "parse_amount v \<noteq> Inl []"
  by (cases v) auto

lemma parse_description_nonempty: "parse_description v \<noteq> Inl []"
  by (cases v) (auto simp: Let_def)

lemma parse_category_nonempty: "parse_category v \<noteq> Inl []"
  by (cases v) auto

lemma parse_object_failure:
  assumes "isl (parse_amount (get_property props ''amount''))
         \<or> isl (parse_description (get_property props ''description''))
         \<or> isl (parse_category (get_property props ''category''))"
  shows "insertExpenseSchema_parse (VObject props) =
           Inl (issues_of (parse_amount (get_property props ''amount''))
                @ issues_of (parse_description (get_property props ''description''))
                @ issues_of (parse_category (get_property props ''category'')))"
  using assms by (auto simp: Let_def split: sum.splits)

lemma post_failure:
  "insertExpenseSchema_parse req_body = Inl issues \<Longrightarrow>
     POST_expenses now req_body st =
       (\<lparr>status = 400, body = ValidationError ''Validation error'' issues\<rparr>, st)"
  by (simp add: POST_expenses_def)


text \<open>Every rejection carries at least one issue.\<close>

lemma rejected_has_issue:
  assumes "insertExpenseSchema_parse req_body = Inl issues"
  shows "issues \<noteq> []"
proof (cases req_body)
  case (VObject props)
  let ?a = "parse_amount (get_property props ''amount'')"
  let ?d = "parse_description (get_property props ''description'')"
  let ?c = "parse_category (get_property props ''category'')"
  from assms VObject have failing: "isl ?a \<or> isl ?d \<or> isl ?c"
    by (auto simp: Let_def split: sum.splits)
  then have "insertExpenseSchema_parse (VObject props) =
      Inl (issues_of ?a @ issues_of ?d @ issues_of ?c)"
    by (rule parse_object_failure)
  with assms VObject have issues: "issues = issues_of ?a @ issues_of ?d @ issues_of ?c"
    by simp
  have "?a \<noteq> Inl []" "?d \<noteq> Inl []" "?c \<noteq> Inl []"
    by (rule parse_amount_nonempty, rule parse_description_nonempty, rule parse_category_nonempty)
  with failing have "issues_of ?a @ issues_of ?d @ issues_of ?c \<noteq> []"
    by (cases ?a; cases ?d; cases ?c) auto
  with issues show ?thesis by simp
qed (use assms in auto)

lemma amount_rejected:
  "le_zero x \<Longrightarrow>
     parse_amount (VNumber x) =
       Inl [\<lparr>code = too_small, path = [''amount''], message = Some ''Amount must be positive''\<rparr>]"
  by (cases x) auto

lemma description_rejected:
  "d = [] \<or> 100 < length d \<Longrightarrow>
     parse_description (VString d) =
       Inl [\<lparr>code = (if d = [] then too_small else too_big), path = [''description''],
             message = Some (if d = [] then ''Description is required'' else ''Description too long'')\<rparr>]"
  by (auto simp: Let_def)

lemma category_rejected:
  "c \<notin> set categories \<Longrightarrow>
     parse_category (VString c) =
       Inl [\<lparr>code = invalid_enum_value, path = [''category''], message = None\<rparr>]"
  by simp

text \<open>
  C6. A body whose amount is zero or negative, whose description is empty or longer than
  100, or whose category is outside the enumeration is answered with 400 and the list of
  issues, each on one of the three fields and one of them on every offending field; the
  store is as before.
\<close>

theorem post_invalid_rejected:
  assumes "(\<exists>x. get_property props ''amount'' = VNumber x \<and> le_zero x)
         \<or> (\<exists>d. get_property props ''description'' = VString d \<and> (d = [] \<or> 100 < length d))
         \<or> (\<exists>c. get_property props ''category'' = VString c \<and> c \<notin> set categories)"
  shows "\<exists>issues.
           POST_expenses now (VObject props) st =
             (\<lparr>status = 400, body = ValidationError ''Validation error'' issues\<rparr>, st)
           \<and> issues \<noteq> []
           \<and> (\<forall>i \<in> set issues. path i \<in> {[''amount''], [''description''], [''category'']})
           \<and> ((\<exists>x. get_property props ''amount'' = VNumber x \<and> le_zero x)
                \<longrightarrow> (\<exists>i \<in> set issues. path i = [''amount''] \<and> code i = too_small))
           \<and> ((\<exists>d. get_property props ''description'' = VString d \<and> (d = [] \<or> 100 < length d))
                \<longrightarrow> (\<exists>i \<in> set issues. path i = [''description'']))
           \<and> ((\<exists>c. get_property props ''category'' = VString c \<and> c \<notin> set categories)
                \<longrightarrow> (\<exists>i \<in> set issues. path i = [''category''] \<and> code i = invalid_enum_value))"
proof -
  let ?a = "parse_amount (get_property props ''amount'')"
  let ?d = "parse_description (get_property props ''description'')"
  let ?c = "parse_category (get_property props ''category'')"
  let ?issues = "issues_of ?a @ issues_of ?d @ issues_of ?c"
  have a: "isl ?a \<and> (\<exists>i \<in> set (issues_of ?a). path i = [''amount''] \<and> code i = too_small)"
    if "\<exists>x. get_property props ''amount'' = VNumber x \<and> le_zero x"
    using that by (auto simp: amount_rejected)
  have d: "isl ?d \<and> (\<exists>i \<in> set (issues_of ?d). path i = [''description''])"
    if "\<exists>d. get_property props ''description'' = VString d \<and> (d = [] \<or> 100 < length d)"
  proof -
    from that obtain d where is_string: "get_property props ''description'' = VString d"
      and bad: "d = [] \<or> 100 < length d" by blast
    from description_rejected [OF bad] is_string show ?thesis by simp
  qed
  have c: "isl ?c \<and> (\<exists>i \<in> set (issues_of ?c). path i = [''category''] \<and> code i = invalid_enum_value)"
    if "\<exists>c. get_property props ''category'' = VString c \<and> c \<notin> set categories"
    using that by (auto simp: category_rejected)
  from assms a d c have failing: "isl ?a \<or> isl ?d \<or> isl ?c"
    by blast
  then have "insertExpenseSchema_parse (VObject props) = Inl ?issues"
    by (rule parse_object_failure)
  then have response: "POST_expenses now (VObject props) st =
      (\<lparr>status = 400, body = ValidationError ''Validation error'' ?issues\<rparr>, st)"
    by (rule post_failure)
  from assms a d c have nonempty: "?issues \<noteq> []"
    by auto
  have fields: "\<forall>i \<in> set ?issues. path i \<in> {[''amount''], [''description''], [''category'']}"
    using amount_issues [of "get_property props ''amount''"]
      description_issues [of "get_property props ''description''"]
      category_issues [of "get_property props ''category''"]
    by auto
  from a have a': "(\<exists>x. get_property props ''amount'' = VNumber x \<and> le_zero x)
      \<longrightarrow> (\<exists>i \<in> set ?issues. path i = [''amount''] \<and> code i = too_small)"
    by auto
  from d have d': "(\<exists>d. get_property props ''description'' = VString d \<and> (d = [] \<or> 100 < length d))
      \<longrightarrow> (\<exists>i \<in> set ?issues. path i = [''description''])"
    by auto
  from c have c': "(\<exists>c. get_property props ''category'' = VString c \<and> c \<notin> set categories)
      \<longrightarrow> (\<exists>i \<in> set ?issues. path i = [''category''] \<and> code i = invalid_enum_value)"
    by auto
  from response nonempty fields a' d' c' show ?thesis
    by blast
qed


theorem post_invalid_rejected_witness:
  "get_property invalid_props ''amount'' = VNumber (Finite False 0 0)
   \<and> le_zero (Finite False 0 0)
   \<and> get_property invalid_props ''description'' = VString []
   \<and> get_property invalid_props ''category'' = VString ''travel''
   \<and> ''travel'' \<notin> set categories
   \<and> status (fst (POST_expenses 1000 (VObject invalid_props) lunch_store)) = 400
   \<and> snd (POST_expenses 1000 (VObject invalid_props) lunch_store) = lunch_store"
proof -
  have a: "get_property invalid_props ''amount'' = VNumber (Finite False 0 0)"
    and d: "get_property invalid_props ''description'' = VString []"
    and c: "get_property invalid_props ''category'' = VString ''travel''"
    by (simp_all add: invalid_props_def get_property_def)
  have z: "le_zero (Finite False 0 0)"
    by simp
  have e: "''travel'' \<notin> set categories"
    by (simp add: categories_def)
  from a z have "(\<exists>x. get_property invalid_props ''amount'' = VNumber x \<and> le_zero x)
      \<or> (\<exists>d. get_property invalid_props ''description'' = VString d \<and> (d = [] \<or> 100 < length d))
      \<or> (\<exists>c. get_property invalid_props ''category'' = VString c \<and> c \<notin> set categories)"
    by blast
  from post_invalid_rejected [OF this, of 1000 lunch_store]
  obtain issues where "POST_expenses 1000 (VObject invalid_props) lunch_store =
      (\<lparr>status = 400, body = ValidationError ''Validation error'' issues\<rparr>, lunch_store)"
    by blast
  with a d c z e show ?thesis
    by simp
qed

subsection \<open>The id of a path\<close>

text \<open>The guard of both handlers: a parameter that \<open>parseInt\<close> cannot read is answered 400.\<close>

lemma not_a_number_rejected:
  "parseInt p = ParsedNaN \<Longrightarrow>
     GET_expense p st = (\<lparr>status = 400, body = Message ''Invalid expense ID''\<rparr>, st)
     \<and> DELETE_expense p st = (\<lparr>status = 400, body = Message ''Invalid expense ID''\<rparr>, st)"
  by (simp add: GET_expense_def DELETE_expense_def)

lemma parseInt_abc: "parseInt (code_units ''abc'') = ParsedNaN"
  by (simp add: parseInt_def code_units_def is_WhiteSpace_def is_radix_digit_def digit_value_def
      Let_def)

lemma parseInt_1abc: "parseInt (code_units ''1abc'') = ParsedInt 1"
  by (simp add: parseInt_def code_units_def is_WhiteSpace_def is_radix_digit_def digit_value_def
      radix_value_def to_Number_def Let_def)

text \<open>
  \<open>parseInt\<close> on the edges of its domain: an integer that no Number holds is rounded,
  and the byte order mark is white space.
\<close>

lemma parseInt_rounds:
  "parseInt (code_units ''9007199254740993'') = ParsedInt 9007199254740992"
proof -
  let ?units = "[57, 48, 48, 55, 49, 57, 57, 50, 53, 52, 55, 52, 48, 57, 57, 51] :: nat list"
  have units: "code_units ''9007199254740993'' = ?units"
    by (simp add: code_units_def)
  have read: "radix_value 10 ?units = 9007199254740993"
    by (simp add: radix_value_def digit_value_def)
  have "bit_length 9007199254740993 = 54"
    by (simp add: bit_length.simps)
  then have rounded: "to_Number 9007199254740993 = Some 9007199254740992"
    by (simp add: to_Number_def Let_def)
  show ?thesis
    unfolding units
    by (simp add: parseInt_def Let_def is_WhiteSpace_def is_radix_digit_def digit_value_def
        read rounded)
qed

lemma parseInt_byte_order_mark: "parseInt (0xFEFF # code_units ''1'') = ParsedInt 1"
  by (simp add: parseInt_def code_units_def is_WhiteSpace_def is_radix_digit_def digit_value_def
      radix_value_def to_Number_def Let_def)

text \<open>
  C7 on the code. The parameter \<^verbatim>\<open>1abc\<close> is not a valid integer, and the claim has it
  answered 400. \<open>parseInt\<close> reads its prefix \<open>1\<close>: with expense 1 in the store, \<open>GET\<close>
  answers 200 with that expense, and \<open>DELETE\<close> answers 200 and removes it.
\<close>

theorem id_prefix_accepted:
  "\<not> spec_valid_integer (code_units ''1abc'')
   \<and> fst (GET_expense (code_units ''1abc'') lunch_store) =
       \<lparr>status = 200,
        body = ExpenseJson \<lparr>amount = ''250.5'', description = ''Lunch'', category = ''food'',
                             id' = 1, createdAt = 1000\<rparr>\<rparr>
   \<and> DELETE_expense (code_units ''1abc'') lunch_store =
       (\<lparr>status = 200, body = Message ''Expense deleted successfully''\<rparr>,
        \<lparr>expenses = [], currentId = 2\<rparr>)"
proof -
  have invalid: "\<not> spec_valid_integer (code_units ''1abc'')"
    by (simp add: spec_valid_integer_def code_units_def)
  have got: "fst (GET_expense (code_units ''1abc'') lunch_store) =
       \<lparr>status = 200,
        body = ExpenseJson \<lparr>amount = ''250.5'', description = ''Lunch'', category = ''food'',
                             id' = 1, createdAt = 1000\<rparr>\<rparr>"
    by (simp add: GET_expense_def parseInt_1abc lunch_store_eq getExpense_def)
  have deleted: "DELETE_expense (code_units ''1abc'') lunch_store =
       (\<lparr>status = 200, body = Message ''Expense deleted successfully''\<rparr>,
        \<lparr>expenses = [], currentId = 2\<rparr>)"
    by (simp add: DELETE_expense_def parseInt_1abc lunch_store_eq deleteExpense_def Map_delete_def)
  from invalid got deleted show ?thesis
    by blast
qed

subsection \<open>The category of a query\<close>

text \<open>
  C10. With the empty string as \<^verbatim>\<open>category\<close> the handler answers as without the
  parameter: 200 with the whole listing, not the expenses whose category is the empty
  string (of which the store of the scenario has none, while its listing has one).
\<close>

theorem empty_category_lists_all:
  "GET_expenses (QString []) st = GET_expenses QAbsent st
   \<and> GET_expenses (QString []) st = (\<lparr>status = 200, body = ExpenseList (getExpenses st)\<rparr>, st)
   \<and> getExpensesByCategory [] lunch_store = []
   \<and> getExpenses lunch_store \<noteq> []"
  by (simp add: GET_expenses_def lunch_store_eq getExpensesByCategory_def getExpenses_def
      Map_values_def)

end
